theory Spec2Isabelle
  imports Complex_Main "HOL-Library.Log_Nat" "HOL-Library.AList"
begin

section \<open>JavaScript numbers\<close>

text \<open>
  A TypeScript \<open>number\<close> is an IEEE 754 binary64 value. A finite value is kept as its
  sign (\<open>True\<close> for negative, so that both zeros exist) and its magnitude, an exact
  rational; every arithmetic operation computes the exact result and rounds it to the
  nearest binary64 value, ties to even, with gradual underflow and overflow to infinity.
\<close>

datatype number = Finite bool rat | Infinity bool | NaN

definition ilog2 :: "rat \<Rightarrow> int" where
  \<comment> \<open>\<open>\<lfloor>log\<^sub>2 q\<rfloor>\<close> for \<open>q > 0\<close>, from the bit length of \<open>\<lfloor>q\<rfloor>\<close> or of \<open>\<lceil>1 / q\<rceil> - 1\<close>\<close>
  "ilog2 q = (if 1 \<le> q then int (floorlog 2 (nat \<lfloor>q\<rfloor>)) - 1
              else - int (floorlog 2 (nat (\<lceil>1 / q\<rceil> - 1))))"

definition scale2 :: "rat \<Rightarrow> int \<Rightarrow> rat" where
  \<comment> \<open>\<open>q \<cdot> 2\<^sup>k\<close>\<close>
  "scale2 q k = (if 0 \<le> k then q * 2 ^ nat k else q / 2 ^ nat (- k))"

definition roundHalfEven :: "rat \<Rightarrow> int" where
  "roundHalfEven v = (let f = \<lfloor>v\<rfloor>; r = v - of_int f
     in if r < 1 / 2 then f else if 1 / 2 < r then f + 1 else if even f then f else f + 1)"

definition roundMag :: "rat \<Rightarrow> rat" where
  \<comment> \<open>nearest multiple of the unit in the last place \<open>2\<^sup>e\<^sup>-\<^sup>5\<^sup>2\<close>: 53 significant bits,
      exponent at least \<open>-1022\<close>\<close>
  "roundMag q = (if q = 0 then 0 else
     let e = max (ilog2 q) (- 1022)
     in scale2 (of_int (roundHalfEven (scale2 q (52 - e)))) (e - 52))"

definition rnd :: "bool \<Rightarrow> rat \<Rightarrow> number" where
  "rnd s q = (let r = roundMag q in if 2 ^ 1024 \<le> r then Infinity s else Finite s r)"

definition lit :: "rat \<Rightarrow> number" where
  \<comment> \<open>a decimal literal of the source text\<close>
  "lit q = (if q < 0 then rnd True (- q) else rnd False q)"

fun fneg :: "number \<Rightarrow> number" where
  "fneg (Finite s a) = Finite (\<not> s) a"
| "fneg (Infinity s) = Infinity (\<not> s)"
| "fneg NaN = NaN"

fun fadd :: "number \<Rightarrow> number \<Rightarrow> number" where
  "fadd NaN _ = NaN"
| "fadd _ NaN = NaN"
| "fadd (Infinity s) (Infinity t) = (if s = t then Infinity s else NaN)"
| "fadd (Infinity s) (Finite _ _) = Infinity s"
| "fadd (Finite _ _) (Infinity t) = Infinity t"
| "fadd (Finite s a) (Finite t b) =
     (if s = t then rnd s (a + b)
      else if a = b then Finite False 0
      else if b < a then rnd s (a - b) else rnd t (b - a))"

definition fsub :: "number \<Rightarrow> number \<Rightarrow> number" where
  "fsub a b = fadd a (fneg b)"

fun fmul :: "number \<Rightarrow> number \<Rightarrow> number" where
  "fmul NaN _ = NaN"
| "fmul _ NaN = NaN"
| "fmul (Infinity s) (Infinity t) = Infinity (s \<noteq> t)"
| "fmul (Infinity s) (Finite t b) = (if b = 0 then NaN else Infinity (s \<noteq> t))"
| "fmul (Finite s a) (Infinity t) = (if a = 0 then NaN else Infinity (s \<noteq> t))"
| "fmul (Finite s a) (Finite t b) = rnd (s \<noteq> t) (a * b)"

fun fdiv :: "number \<Rightarrow> number \<Rightarrow> number" where
  "fdiv NaN _ = NaN"
| "fdiv _ NaN = NaN"
| "fdiv (Infinity s) (Infinity t) = NaN"
| "fdiv (Infinity s) (Finite t b) = Infinity (s \<noteq> t)"
| "fdiv (Finite s a) (Infinity t) = Finite (s \<noteq> t) 0"
| "fdiv (Finite s a) (Finite t b) =
     (if b = 0 then (if a = 0 then NaN else Infinity (s \<noteq> t))
      else rnd (s \<noteq> t) (a / b))"

definition signed :: "bool \<Rightarrow> rat \<Rightarrow> rat" where
  "signed s a = (if s then - a else a)"

fun fge :: "number \<Rightarrow> number \<Rightarrow> bool" where
  "fge NaN _ = False"
| "fge _ NaN = False"
| "fge (Infinity s) (Infinity t) = (\<not> s \<or> t)"
| "fge (Infinity s) (Finite _ _) = (\<not> s)"
| "fge (Finite _ _) (Infinity t) = t"
| "fge (Finite s a) (Finite t b) = (signed t b \<le> signed s a)"

section \<open>Math.ts: vectors and colours\<close>

text \<open>
  Vectors and colours are values: every method of the source returns a new object, and
  an assignment to a coordinate is modelled as a new value of the field that holds it.
\<close>

datatype vector2 = Vector2 (vx: number) (vy: number)

definition Vector2_new :: vector2 where
  \<comment> \<open>\<open>new Vector2()\<close>: both coordinates default to 0\<close>
  "Vector2_new = Vector2 (lit 0) (lit 0)"

definition Vector2_add :: "vector2 \<Rightarrow> vector2 \<Rightarrow> vector2" where
  "Vector2_add u v = Vector2 (fadd (vx u) (vx v)) (fadd (vy u) (vy v))"

definition Vector2_subtract :: "vector2 \<Rightarrow> vector2 \<Rightarrow> vector2" where
  "Vector2_subtract u v = Vector2 (fsub (vx u) (vx v)) (fsub (vy u) (vy v))"

definition Vector2_multiply :: "vector2 \<Rightarrow> number \<Rightarrow> vector2" where
  "Vector2_multiply u scalar = Vector2 (fmul (vx u) scalar) (fmul (vy u) scalar)"

datatype vector3 = Vector3 (v3x: number) (v3y: number) (v3z: number)

definition Vector3_add :: "vector3 \<Rightarrow> vector3 \<Rightarrow> vector3" where
  "Vector3_add u v = Vector3 (fadd (v3x u) (v3x v)) (fadd (v3y u) (v3y v)) (fadd (v3z u) (v3z v))"

datatype color = Color (color_r: number) (color_g: number) (color_b: number) (color_a: number)

definition Color_white :: color where
  "Color_white = Color (lit 1) (lit 1) (lit 1) (lit 1)"

section \<open>Entity.ts and components.ts: the object heap\<close>

type_synonym ref = nat

text \<open>The component classes of components.ts; a class is the key of an entity's registry.\<close>

datatype ctor = Transform2D | Transform3D | Sprite | Circle | Rectangle | Rigidbody2D

datatype class_fields =
    Transform2D_fields (position: vector2) (scale: vector2) (rotation: number)
  | Transform3D_fields (position3: vector3) (scale3: vector3) (rotation3: vector3)
  | Sprite_fields (width: number) (height: number) (spriteColor: color) (texture: "ref option")
      (sourceX: number) (sourceY: number) (sourceWidth: "number option")
      (sourceHeight: "number option")
  | Circle_fields (radius: number) (circleColor: color) (circleFilled: bool)
      (circleLineWidth: number)
  | Rectangle_fields (rectWidth: number) (rectHeight: number) (rectColor: color)
      (rectFilled: bool) (rectLineWidth: number)
  | Rigidbody2D_fields (velocity: vector2) (acceleration: vector2) (mass: number)
      (friction: number) (isStatic: bool) (gravity: number)

record Component =
  isEnabled :: bool
  entity :: "ref option"
  props :: class_fields

record Entity =
  name :: string
  active :: bool
  components :: "(ctor \<times> ref) list"
  children :: "ref list"
  parent :: "ref option"

record Scene =
  rootEntities :: "ref list"
  allEntities :: "(string \<times> ref) list"
  sceneName :: string

text \<open>
  Objects live in a heap and are named by references, so that the parent reference of
  one entity and the child list of another can name the same object. A \<open>Map\<close> is an
  association list in insertion order: \<open>set\<close> is \<^const>\<open>AList.update\<close>, \<open>get\<close> is
  \<^const>\<open>map_of\<close>, \<open>delete\<close> is \<^const>\<open>AList.delete\<close>.
\<close>

record world =
  entityHeap :: "ref \<Rightarrow> Entity"
  componentHeap :: "ref \<Rightarrow> Component"
  sceneHeap :: "ref \<Rightarrow> Scene"
  nextEntity :: ref
  nextComponent :: ref

definition initial_fields :: "ctor \<Rightarrow> class_fields" where
  \<comment> \<open>the field initialisers of each class\<close>
  "initial_fields C = (case C of
     Transform2D \<Rightarrow> Transform2D_fields Vector2_new (Vector2 (lit 1) (lit 1)) (lit 0)
   | Transform3D \<Rightarrow> Transform3D_fields (Vector3 (lit 0) (lit 0) (lit 0))
       (Vector3 (lit 1) (lit 1) (lit 1)) (Vector3 (lit 0) (lit 0) (lit 0))
   | Sprite \<Rightarrow> Sprite_fields (lit 50) (lit 50) Color_white None (lit 0) (lit 0) None None
   | Circle \<Rightarrow> Circle_fields (lit 25) Color_white True (lit 1)
   | Rectangle \<Rightarrow> Rectangle_fields (lit 50) (lit 50) Color_white True (lit 1)
   | Rigidbody2D \<Rightarrow> Rigidbody2D_fields Vector2_new Vector2_new (lit 1) (lit (1 / 10)) False
       (lit (98 / 10)))"

definition new_Component :: "ctor \<Rightarrow> Component" where
  "new_Component C = \<lparr>isEnabled = True, entity = None, props = initial_fields C\<rparr>"

definition update_entity :: "ref \<Rightarrow> (Entity \<Rightarrow> Entity) \<Rightarrow> world \<Rightarrow> world" where
  "update_entity e f w = w\<lparr>entityHeap := (entityHeap w)(e := f (entityHeap w e))\<rparr>"

definition update_component :: "ref \<Rightarrow> (Component \<Rightarrow> Component) \<Rightarrow> world \<Rightarrow> world" where
  "update_component c f w = w\<lparr>componentHeap := (componentHeap w)(c := f (componentHeap w c))\<rparr>"

definition addComponent :: "world \<Rightarrow> ref \<Rightarrow> ctor \<Rightarrow> ref \<times> world" where
  "addComponent w this C =
     (let component = nextComponent w;
          w1 = w\<lparr>componentHeap := (componentHeap w)(component := new_Component C),
                 nextComponent := Suc component\<rparr>;
          w2 = update_component component (\<lambda>c. c\<lparr>entity := Some this\<rparr>) w1;
          w3 = update_entity this
                 (\<lambda>e. e\<lparr>components := AList.update C component (components e)\<rparr>) w2
      in (component, w3))"

definition getComponent :: "world \<Rightarrow> ref \<Rightarrow> ctor \<Rightarrow> ref option" where
  "getComponent w this C = map_of (components (entityHeap w this)) C"

definition removeComponent :: "world \<Rightarrow> ref \<Rightarrow> ctor \<Rightarrow> world" where
  "removeComponent w this C =
     update_entity this (\<lambda>e. e\<lparr>components := AList.delete C (components e)\<rparr>) w"

definition getComponents :: "world \<Rightarrow> ref \<Rightarrow> ref list" where
  "getComponents w this = map snd (components (entityHeap w this))"

definition new_Entity :: "string \<Rightarrow> bool \<Rightarrow> Entity" where
  \<comment> \<open>\<open>new Entity(name, active)\<close>; the defaults are \<open>'Entity'\<close> and \<open>true\<close>\<close>
  "new_Entity nm act = \<lparr>name = nm, active = act, components = [], children = [], parent = None\<rparr>"

definition new_Scene :: Scene where
  "new_Scene = \<lparr>rootEntities = [], allEntities = [], sceneName = ''Scene''\<rparr>"

definition update_scene :: "ref \<Rightarrow> (Scene \<Rightarrow> Scene) \<Rightarrow> world \<Rightarrow> world" where
  "update_scene s f w = w\<lparr>sceneHeap := (sceneHeap w)(s := f (sceneHeap w s))\<rparr>"

text \<open>\<open>Array.prototype.indexOf\<close> and \<open>splice(index, 1)\<close>.\<close>

fun indexOf :: "'a list \<Rightarrow> 'a \<Rightarrow> int" where
  "indexOf [] v = - 1"
| "indexOf (u # us) v =
     (if u = v then 0 else (let i = indexOf us v in if i > - 1 then i + 1 else - 1))"

definition splice1 :: "'a list \<Rightarrow> int \<Rightarrow> 'a list" where
  "splice1 xs i = take (nat i) xs @ drop (Suc (nat i)) xs"

definition addChild :: "world \<Rightarrow> ref \<Rightarrow> ref \<Rightarrow> world" where
  "addChild w this ent =
     (let w1 = update_entity ent (\<lambda>e. e\<lparr>parent := Some this\<rparr>) w;
          w2 = update_entity this (\<lambda>e. e\<lparr>children := children e @ [ent]\<rparr>) w1
      in w2)"

definition removeChild :: "world \<Rightarrow> ref \<Rightarrow> ref \<Rightarrow> world" where
  "removeChild w this ent =
     (let index = indexOf (children (entityHeap w this)) ent
      in if index > - 1
         then (let w1 = update_entity this (\<lambda>e. e\<lparr>children := splice1 (children e) index\<rparr>) w;
                   w2 = update_entity ent (\<lambda>e. e\<lparr>parent := None\<rparr>) w1
               in w2)
         else w)"

definition getChildren :: "world \<Rightarrow> ref \<Rightarrow> ref list" where
  "getChildren w this = children (entityHeap w this)"

definition getParent :: "world \<Rightarrow> ref \<Rightarrow> ref option" where
  "getParent w this = parent (entityHeap w this)"

definition destroy :: "world \<Rightarrow> ref \<Rightarrow> world" where
  "destroy w this =
     (let w1 = (case parent (entityHeap w this) of
                  Some p \<Rightarrow> removeChild w p this
                | None \<Rightarrow> w);
          w2 = update_entity this (\<lambda>e. e\<lparr>components := []\<rparr>) w1;
          w3 = update_entity this (\<lambda>e. e\<lparr>children := []\<rparr>) w2
      in w3)"

subsection \<open>Component behaviour\<close>

fun classOf :: "class_fields \<Rightarrow> ctor" where
  "classOf (Transform2D_fields _ _ _) = Transform2D"
| "classOf (Transform3D_fields _ _ _) = Transform3D"
| "classOf (Sprite_fields _ _ _ _ _ _ _ _) = Sprite"
| "classOf (Circle_fields _ _ _ _) = Circle"
| "classOf (Rectangle_fields _ _ _ _ _) = Rectangle"
| "classOf (Rigidbody2D_fields _ _ _ _ _ _) = Rigidbody2D"

fun set_position :: "vector2 \<Rightarrow> class_fields \<Rightarrow> class_fields" where
  "set_position p (Transform2D_fields _ s rot) = Transform2D_fields p s rot"
| "set_position p other = other"

fun set_velocity :: "vector2 \<Rightarrow> class_fields \<Rightarrow> class_fields" where
  "set_velocity v (Rigidbody2D_fields _ acc m f st gr) = Rigidbody2D_fields v acc m f st gr"
| "set_velocity v other = other"

fun set_acceleration :: "vector2 \<Rightarrow> class_fields \<Rightarrow> class_fields" where
  "set_acceleration acc (Rigidbody2D_fields v _ m f st gr) = Rigidbody2D_fields v acc m f st gr"
| "set_acceleration acc other = other"


definition translate :: "world \<Rightarrow> ref \<Rightarrow> vector2 \<Rightarrow> world" where
  \<comment> \<open>\<open>Transform2D.translate\<close>\<close>
  "translate w this offset =
     update_component this
       (\<lambda>c. c\<lparr>props := set_position (Vector2_add (position (props c)) offset) (props c)\<rparr>) w"

definition Rigidbody2D_update :: "world \<Rightarrow> ref \<Rightarrow> number \<Rightarrow> world" where
  "Rigidbody2D_update w this deltaTime =
     (if isStatic (props (componentHeap w this)) then w
      else case (case entity (componentHeap w this) of
                   None \<Rightarrow> None
                 | Some e \<Rightarrow> getComponent w e Transform2D) of
             None \<Rightarrow> w
           | Some transform \<Rightarrow>
              (let w1 = update_component this (\<lambda>c. c\<lparr>props :=
                          set_acceleration
                            (Vector2 (vx (acceleration (props c)))
                               (fadd (vy (acceleration (props c))) (gravity (props c))))
                            (props c)\<rparr>) w;
                   w2 = update_component this (\<lambda>c. c\<lparr>props :=
                          set_velocity
                            (Vector2_add (velocity (props c))
                               (Vector2_multiply (acceleration (props c)) deltaTime))
                            (props c)\<rparr>) w1;
                   w3 = update_component this (\<lambda>c. c\<lparr>props :=
                          set_velocity
                            (Vector2_multiply (velocity (props c))
                               (fsub (lit 1) (friction (props c))))
                            (props c)\<rparr>) w2;
                   w4 = translate w3 transform
                          (Vector2_multiply (velocity (props (componentHeap w3 this))) deltaTime);
                   w5 = update_component this (\<lambda>c. c\<lparr>props :=
                          set_acceleration Vector2_new (props c)\<rparr>) w4
               in w5))"


definition setVelocity :: "world \<Rightarrow> ref \<Rightarrow> number \<Rightarrow> number \<Rightarrow> world" where
  "setVelocity w this vx0 vy0 =
     update_component this (\<lambda>c. c\<lparr>props := set_velocity (Vector2 vx0 vy0) (props c)\<rparr>) w"

definition Component_update :: "world \<Rightarrow> ref \<Rightarrow> number \<Rightarrow> world" where
  \<comment> \<open>dynamic dispatch of \<open>component.update\<close>; every class but Rigidbody2D has an empty body\<close>
  "Component_update w c deltaTime =
     (if classOf (props (componentHeap w c)) = Rigidbody2D
      then Rigidbody2D_update w c deltaTime else w)"

subsection \<open>Entity.update\<close>

text \<open>
  The update pass returns the new heap and the list of components whose \<open>update\<close> was
  invoked, in order. The recursion follows child references through the heap; its first
  argument bounds the depth of the call stack, and \<open>None\<close> is the stack overflow.
\<close>

fun update_components :: "world \<Rightarrow> ref list \<Rightarrow> number \<Rightarrow> world \<times> ref list" where
  "update_components w [] deltaTime = (w, [])"
| "update_components w (c # cs) deltaTime =
     (if isEnabled (componentHeap w c)
      then (let (w2, tr) = update_components (Component_update w c deltaTime) cs deltaTime
            in (w2, c # tr))
      else update_components w cs deltaTime)"

fun Entity_update :: "nat \<Rightarrow> world \<Rightarrow> ref \<Rightarrow> number \<Rightarrow> (world \<times> ref list) option"
  and update_each :: "nat \<Rightarrow> world \<Rightarrow> ref list \<Rightarrow> number \<Rightarrow> (world \<times> ref list) option"
where
  "Entity_update 0 w this deltaTime = None"
| "Entity_update (Suc k) w this deltaTime =
     (if \<not> active (entityHeap w this) then Some (w, [])
      else (let (w1, tr1) = update_components w (getComponents w this) deltaTime
            in case update_each k w1 (children (entityHeap w1 this)) deltaTime of
                 None \<Rightarrow> None
               | Some (w2, tr2) \<Rightarrow> Some (w2, tr1 @ tr2)))"
| "update_each k w [] deltaTime = Some (w, [])"
| "update_each k w (child # rest) deltaTime =
     (case Entity_update k w child deltaTime of
        None \<Rightarrow> None
      | Some (w1, tr1) \<Rightarrow>
          (case update_each k w1 rest deltaTime of
             None \<Rightarrow> None
           | Some (w2, tr2) \<Rightarrow> Some (w2, tr1 @ tr2)))"

section \<open>Scene\<close>

fun registerEntity :: "nat \<Rightarrow> world \<Rightarrow> ref \<Rightarrow> ref \<Rightarrow> world option"
  and register_each :: "nat \<Rightarrow> world \<Rightarrow> ref \<Rightarrow> ref list \<Rightarrow> world option"
where
  "registerEntity 0 w this ent = None"
| "registerEntity (Suc k) w this ent =
     register_each k
       (update_scene this
          (\<lambda>s. s\<lparr>allEntities := AList.update (name (entityHeap w ent)) ent (allEntities s)\<rparr>) w)
       this (getChildren w ent)"
| "register_each k w this [] = Some w"
| "register_each k w this (child # rest) =
     (case registerEntity k w this child of
        None \<Rightarrow> None
      | Some w1 \<Rightarrow> register_each k w1 this rest)"

fun unregisterEntity :: "nat \<Rightarrow> world \<Rightarrow> ref \<Rightarrow> ref \<Rightarrow> world option"
  and unregister_each :: "nat \<Rightarrow> world \<Rightarrow> ref \<Rightarrow> ref list \<Rightarrow> world option"
where
  "unregisterEntity 0 w this ent = None"
| "unregisterEntity (Suc k) w this ent =
     unregister_each k
       (update_scene this
          (\<lambda>s. s\<lparr>allEntities := AList.delete (name (entityHeap w ent)) (allEntities s)\<rparr>) w)
       this (getChildren w ent)"
| "unregister_each k w this [] = Some w"
| "unregister_each k w this (child # rest) =
     (case unregisterEntity k w this child of
        None \<Rightarrow> None
      | Some w1 \<Rightarrow> unregister_each k w1 this rest)"

definition addEntity :: "nat \<Rightarrow> world \<Rightarrow> ref \<Rightarrow> ref \<Rightarrow> string option \<Rightarrow> world option" where
  \<comment> \<open>\<open>name || entity.name\<close>: an absent or empty name keeps the entity's own\<close>
  "addEntity k w this ent nm =
     (let entityName = (case nm of
                          None \<Rightarrow> name (entityHeap w ent)
                        | Some n \<Rightarrow> if n = [] then name (entityHeap w ent) else n);
          w1 = update_entity ent (\<lambda>e. e\<lparr>name := entityName\<rparr>) w;
          w2 = update_scene this (\<lambda>s. s\<lparr>rootEntities := rootEntities s @ [ent]\<rparr>) w1
      in registerEntity k w2 this ent)"

definition removeEntity :: "nat \<Rightarrow> world \<Rightarrow> ref \<Rightarrow> ref \<Rightarrow> world option" where
  "removeEntity k w this ent =
     (let index = indexOf (rootEntities (sceneHeap w this)) ent
      in if index > - 1
         then unregisterEntity k
                (update_scene this (\<lambda>s. s\<lparr>rootEntities := splice1 (rootEntities s) index\<rparr>) w)
                this ent
         else Some w)"

definition findEntity :: "world \<Rightarrow> ref \<Rightarrow> string \<Rightarrow> ref option" where
  "findEntity w this nm = map_of (allEntities (sceneHeap w this)) nm"

definition getEntities :: "world \<Rightarrow> ref \<Rightarrow> ref list" where
  "getEntities w this = rootEntities (sceneHeap w this)"

definition getEntityCount :: "world \<Rightarrow> ref \<Rightarrow> nat" where
  "getEntityCount w this = length (allEntities (sceneHeap w this))"

definition Scene_update :: "nat \<Rightarrow> world \<Rightarrow> ref \<Rightarrow> number \<Rightarrow> (world \<times> ref list) option" where
  "Scene_update k w this deltaTime = update_each k w (rootEntities (sceneHeap w this)) deltaTime"

definition clear :: "world \<Rightarrow> ref \<Rightarrow> world" where
  "clear w this = update_scene this (\<lambda>s. s\<lparr>rootEntities := [], allEntities := []\<rparr>) w"

text \<open>A heap in which every reference names a freshly constructed object.\<close>

definition fresh_world :: world where
  "fresh_world = \<lparr>entityHeap = (\<lambda>_. new_Entity ''Entity'' True),
                   componentHeap = (\<lambda>_. new_Component Transform2D),
                   sceneHeap = (\<lambda>_. new_Scene), nextEntity = 0, nextComponent = 0\<rparr>"

section \<open>Tree consistency\<close>

text \<open>
  Mutual consistency of child lists and parent references: every entity in a child list
  has that entity as its parent, and every entity with a parent occurs exactly once in
  that parent's child list.
\<close>

definition consistent :: "world \<Rightarrow> bool" where
  "consistent w =
     ((\<forall>p c. c \<in> set (children (entityHeap w p)) \<longrightarrow> parent (entityHeap w c) = Some p) \<and>
      (\<forall>c p. parent (entityHeap w c) = Some p \<longrightarrow>
             count_list (children (entityHeap w p)) c = 1))"

datatype tree_op = AddChild ref ref | RemoveChild ref ref | Destroy ref

fun apply_op :: "world \<Rightarrow> tree_op \<Rightarrow> world" where
  "apply_op w (AddChild p c) = addChild w p c"
| "apply_op w (RemoveChild p c) = removeChild w p c"
| "apply_op w (Destroy e) = destroy w e"

fun apply_ops :: "world \<Rightarrow> tree_op list \<Rightarrow> world" where
  "apply_ops w [] = w"
| "apply_ops w (opn # ops) = apply_ops (apply_op w opn) ops"

text \<open>
  The calls under which the tree stays consistent: \<open>addChild\<close> of an entity that has no
  parent at that moment, any \<open>removeChild\<close>, and \<open>destroy\<close> of an entity that has no
  children at that moment.
\<close>

fun op_ok :: "world \<Rightarrow> tree_op \<Rightarrow> bool" where
  "op_ok w (AddChild p c) = (parent (entityHeap w c) = None)"
| "op_ok w (RemoveChild p c) = True"
| "op_ok w (Destroy e) = (children (entityHeap w e) = [])"

fun ops_ok :: "world \<Rightarrow> tree_op list \<Rightarrow> bool" where
  "ops_ok w [] = True"
| "ops_ok w (opn # ops) = (op_ok w opn \<and> ops_ok (apply_op w opn) ops)"

text \<open>
  An inactive entity 0 whose child 1 is active and carries an enabled rigid body.
\<close>

definition inactive_parent_world :: world where
  "inactive_parent_world =
     update_entity 0 (\<lambda>e. e\<lparr>active := False\<rparr>)
       (addChild (snd (addComponent fresh_world 1 Rigidbody2D)) 0 1)"

section \<open>InputManager\<close>

text \<open>A \<open>Set\<close> is a duplicate-free list in insertion order.\<close>

definition Set_has :: "'a list \<Rightarrow> 'a \<Rightarrow> bool" where
  "Set_has xs v = (v \<in> set xs)"

definition Set_add :: "'a list \<Rightarrow> 'a \<Rightarrow> 'a list" where
  "Set_add xs v = (if v \<in> set xs then xs else xs @ [v])"

definition Set_delete :: "'a list \<Rightarrow> 'a \<Rightarrow> 'a list" where
  "Set_delete xs v = removeAll v xs"

record InputManager =
  keysPressed :: "string list"
  keysJustPressed :: "string list"
  keysJustReleased :: "string list"
  mousePosition :: "number \<times> number"
  mouseButtonsPressed :: "int list"
  mouseButtonsJustPressed :: "int list"
  mouseButtonsJustReleased :: "int list"
  touches :: "(int \<times> number \<times> number) list"

definition new_InputManager :: InputManager where
  "new_InputManager = \<lparr>keysPressed = [], keysJustPressed = [], keysJustReleased = [],
     mousePosition = (lit 0, lit 0), mouseButtonsPressed = [], mouseButtonsJustPressed = [],
     mouseButtonsJustReleased = [], touches = []\<rparr>"

text \<open>
  The raw events the listeners are registered for. A pointer or touch event carries the
  client coordinates; the canvas rectangle's left and top come with it.
\<close>

datatype touch = Touch (touchIdentifier: int) (clientX: number) (clientY: number)

datatype input_event =
    KeyDown string
  | KeyUp string
  | MouseMove number number number number
  | MouseDown int
  | MouseUp int
  | MouseOut
  | TouchStart "touch list" number number
  | TouchMove "touch list" number number
  | TouchEnd "touch list"

fun set_touches :: "(int \<times> number \<times> number) list \<Rightarrow> touch list \<Rightarrow> number \<Rightarrow> number \<Rightarrow>
    (int \<times> number \<times> number) list" where
  "set_touches m [] rectLeft rectTop = m"
| "set_touches m (t # ts) rectLeft rectTop =
     set_touches (AList.update (touchIdentifier t) (fsub (clientX t) rectLeft, fsub (clientY t) rectTop) m)
       ts rectLeft rectTop"

fun delete_touches :: "(int \<times> number \<times> number) list \<Rightarrow> touch list \<Rightarrow>
    (int \<times> number \<times> number) list" where
  "delete_touches m [] = m"
| "delete_touches m (t # ts) = delete_touches (AList.delete (touchIdentifier t) m) ts"

fun dispatch :: "InputManager \<Rightarrow> input_event \<Rightarrow> InputManager" where
  "dispatch s (KeyDown key) =
     (let s1 = (if \<not> Set_has (keysPressed s) key
                then s\<lparr>keysJustPressed := Set_add (keysJustPressed s) key\<rparr> else s)
      in s1\<lparr>keysPressed := Set_add (keysPressed s1) key\<rparr>)"
| "dispatch s (KeyUp key) =
     (let s1 = s\<lparr>keysPressed := Set_delete (keysPressed s) key\<rparr>
      in s1\<lparr>keysJustReleased := Set_add (keysJustReleased s1) key\<rparr>)"
| "dispatch s (MouseMove cx cy rectLeft rectTop) = s\<lparr>mousePosition := (fsub cx rectLeft, fsub cy rectTop)\<rparr>"
| "dispatch s (MouseDown button) =
     (let s1 = (if \<not> Set_has (mouseButtonsPressed s) button
                then s\<lparr>mouseButtonsJustPressed := Set_add (mouseButtonsJustPressed s) button\<rparr>
                else s)
      in s1\<lparr>mouseButtonsPressed := Set_add (mouseButtonsPressed s1) button\<rparr>)"
| "dispatch s (MouseUp button) =
     (let s1 = s\<lparr>mouseButtonsPressed := Set_delete (mouseButtonsPressed s) button\<rparr>
      in s1\<lparr>mouseButtonsJustReleased := Set_add (mouseButtonsJustReleased s1) button\<rparr>)"
| "dispatch s MouseOut = s\<lparr>mouseButtonsPressed := []\<rparr>"
| "dispatch s (TouchStart ts rectLeft rectTop) = s\<lparr>touches := set_touches (touches s) ts rectLeft rectTop\<rparr>"
| "dispatch s (TouchMove ts rectLeft rectTop) = s\<lparr>touches := set_touches (touches s) ts rectLeft rectTop\<rparr>"
| "dispatch s (TouchEnd ts) = s\<lparr>touches := delete_touches (touches s) ts\<rparr>"

definition isKeyPressed :: "InputManager \<Rightarrow> string \<Rightarrow> bool" where
  "isKeyPressed s key = Set_has (keysPressed s) key"

definition isKeyJustPressed :: "InputManager \<Rightarrow> string \<Rightarrow> bool" where
  "isKeyJustPressed s key = Set_has (keysJustPressed s) key"

definition isKeyJustReleased :: "InputManager \<Rightarrow> string \<Rightarrow> bool" where
  "isKeyJustReleased s key = Set_has (keysJustReleased s) key"

definition getPressedKeys :: "InputManager \<Rightarrow> string list" where
  "getPressedKeys s = keysPressed s"

definition isMouseButtonPressed :: "InputManager \<Rightarrow> int \<Rightarrow> bool" where
  "isMouseButtonPressed s button = Set_has (mouseButtonsPressed s) button"

definition isMouseButtonJustPressed :: "InputManager \<Rightarrow> int \<Rightarrow> bool" where
  "isMouseButtonJustPressed s button = Set_has (mouseButtonsJustPressed s) button"

definition isMouseButtonJustReleased :: "InputManager \<Rightarrow> int \<Rightarrow> bool" where
  "isMouseButtonJustReleased s button = Set_has (mouseButtonsJustReleased s) button"

definition InputManager_update :: "InputManager \<Rightarrow> InputManager" where
  "InputManager_update s =
     s\<lparr>keysJustPressed := [], keysJustReleased := [],
       mouseButtonsJustPressed := [], mouseButtonsJustReleased := []\<rparr>"

text \<open>What happens to an input manager over time: raw events and \<open>update()\<close> calls.\<close>

datatype input_step = Event input_event | UpdateCall

fun do_step :: "InputManager \<Rightarrow> input_step \<Rightarrow> InputManager" where
  "do_step s (Event ev) = dispatch s ev"
| "do_step s UpdateCall = InputManager_update s"

fun input_run :: "InputManager \<Rightarrow> input_step list \<Rightarrow> InputManager" where
  "input_run s [] = s"
| "input_run s (st # sts) = input_run (do_step s st) sts"

section \<open>Example heaps\<close>









section \<open>GameEngine\<close>

datatype RenderMode = Mode2D | Mode3D

text \<open>
  The page, as far as the engine looks at it: the elements that \<open>getElementById\<close> finds,
  each with the canvases it contains in document order, the next canvas to be created,
  whether a canvas hands out a 2D context, whether it hands out a WebGL context whose
  shaders compile and link, and the window size.
\<close>

record document =
  elements :: "(string \<times> ref list) list"
  nextCanvas :: ref
  context2dAvailable :: bool
  webglAvailable :: bool
  innerWidth :: number
  innerHeight :: number

datatype error = ContainerNotFound string | No2DContext | NoWebGL

record Canvas2DRenderer =
  canvas2d :: ref
  width2d :: number
  height2d :: number
  backgroundColor :: string

record WebGLRenderer =
  canvas3d :: ref
  width3d :: number
  height3d :: number
  clearColor :: "number list"

definition new_Canvas2DRenderer ::
    "document \<Rightarrow> string \<Rightarrow> number \<Rightarrow> number \<Rightarrow> string \<Rightarrow> error + Canvas2DRenderer \<times> document" where
  "new_Canvas2DRenderer d containerId w h bg =
     (case map_of (elements d) containerId of
        None \<Rightarrow> Inl (ContainerNotFound containerId)
      | Some cs \<Rightarrow>
          (let c = nextCanvas d;
               d1 = d\<lparr>elements := AList.update containerId (cs @ [c]) (elements d),
                      nextCanvas := Suc c\<rparr>
           in if \<not> context2dAvailable d then Inl No2DContext
              else Inr (\<lparr>canvas2d = c, width2d = w, height2d = h, backgroundColor = bg\<rparr>, d1)))"

definition new_WebGLRenderer ::
    "document \<Rightarrow> string \<Rightarrow> number \<Rightarrow> number \<Rightarrow> number list \<Rightarrow> error + WebGLRenderer \<times> document" where
  "new_WebGLRenderer d containerId w h cc =
     (case map_of (elements d) containerId of
        None \<Rightarrow> Inl (ContainerNotFound containerId)
      | Some cs \<Rightarrow>
          (let c = nextCanvas d;
               d1 = d\<lparr>elements := AList.update containerId (cs @ [c]) (elements d),
                      nextCanvas := Suc c\<rparr>
           in if \<not> webglAvailable d then Inl NoWebGL
              else Inr (\<lparr>canvas3d = c, width3d = w, height3d = h, clearColor = cc\<rparr>, d1)))"

record GameEngine =
  scene :: ref
  canvas2DRenderer :: "Canvas2DRenderer option"
  webglRenderer :: "WebGLRenderer option"
  inputManager :: "InputManager option"
  renderMode :: RenderMode
  isRunning :: bool
  lastTime :: number
  frameCount :: number
  fps :: number
  fpsUpdateTime :: number

definition initializeRenderer ::
    "GameEngine \<Rightarrow> document \<Rightarrow> string \<Rightarrow> error + GameEngine \<times> document" where
  "initializeRenderer this d containerId =
     (case map_of (elements d) containerId of
        None \<Rightarrow> Inl (ContainerNotFound containerId)
      | Some _ \<Rightarrow>
          (let w = innerWidth d; h = fsub (innerHeight d) (lit 40)
           in if renderMode this = Mode2D
              then (case new_Canvas2DRenderer d containerId w h ''#1a1a1a'' of
                      Inl err \<Rightarrow> Inl err
                    | Inr (r, d1) \<Rightarrow>
                        Inr (this\<lparr>canvas2DRenderer := Some r,
                                  inputManager := Some new_InputManager\<rparr>, d1))
              else (case new_WebGLRenderer d containerId w h
                           [lit (1 / 10), lit (1 / 10), lit (1 / 10), lit 1] of
                      Inl err \<Rightarrow> Inl err
                    | Inr (r, d1) \<Rightarrow>
                        Inr (this\<lparr>webglRenderer := Some r,
                                  inputManager := Some new_InputManager\<rparr>, d1))))"

definition new_GameEngine ::
    "world \<Rightarrow> document \<Rightarrow> ref \<Rightarrow> string \<Rightarrow> RenderMode \<Rightarrow>
     error + GameEngine \<times> world \<times> document" where
  \<comment> \<open>the constructor; \<open>sc\<close> is the address of the scene object it creates\<close>
  "new_GameEngine w d sc containerId mode =
     (let w1 = update_scene sc (\<lambda>_. new_Scene) w;
          this = \<lparr>scene = sc, canvas2DRenderer = None, webglRenderer = None,
                   inputManager = None, renderMode = mode, isRunning = False,
                   lastTime = lit 0, frameCount = lit 0, fps = lit 0, fpsUpdateTime = lit 0\<rparr>
      in case initializeRenderer this d containerId of
           Inl err \<Rightarrow> Inl err
         | Inr (this1, d1) \<Rightarrow> Inr (this1, w1, d1))"

definition switchRenderMode ::
    "GameEngine \<Rightarrow> document \<Rightarrow> RenderMode \<Rightarrow> error + GameEngine \<times> document" where
  "switchRenderMode this d mode =
     (if mode = renderMode this then Inr (this, d)
      else (let d1 = (case map_of (elements d) ''game-container'' of
                        None \<Rightarrow> d
                      | Some [] \<Rightarrow> d
                      | Some (c # cs) \<Rightarrow>
                          d\<lparr>elements := AList.update ''game-container'' cs (elements d)\<rparr>)
            in initializeRenderer (this\<lparr>renderMode := mode\<rparr>) d1 ''game-container''))"

text \<open>
  One iteration of the frame loop, given the reading of the clock. It returns the
  engine, the heap, the component updates invoked, the renderer whose \<open>render\<close> was
  called with the scene, and whether the next frame was requested. What a renderer
  paints and what \<open>updateUI\<close> writes into the page are not modelled.
\<close>

datatype render_call = Canvas2D_render Canvas2DRenderer | WebGL_render WebGLRenderer

definition gameLoop ::
    "nat \<Rightarrow> GameEngine \<Rightarrow> world \<Rightarrow> number \<Rightarrow>
     (GameEngine \<times> world \<times> ref list \<times> render_call option \<times> bool) option" where
  "gameLoop k this w currentTime =
     (if \<not> isRunning this then Some (this, w, [], None, False)
      else (let deltaTime = fdiv (fsub currentTime (lastTime this)) (lit 1000);
                this1 = this\<lparr>lastTime := currentTime\<rparr>
            in case Scene_update k w (scene this1) deltaTime of
                 None \<Rightarrow> None
               | Some (w1, tr) \<Rightarrow>
                   (let this2 = this1\<lparr>inputManager :=
                                  map_option InputManager_update (inputManager this1)\<rparr>;
                        rendered = (case canvas2DRenderer this2 of
                                      Some r \<Rightarrow> Some (Canvas2D_render r)
                                    | None \<Rightarrow>
                                        (case webglRenderer this2 of
                                           Some r \<Rightarrow> Some (WebGL_render r)
                                         | None \<Rightarrow> None));
                        this3 = this2\<lparr>frameCount := fadd (frameCount this2) (lit 1)\<rparr>;
                        this4 = (if fge (fsub currentTime (fpsUpdateTime this3)) (lit 1000)
                                 then this3\<lparr>fps := frameCount this3, frameCount := lit 0,
                                            fpsUpdateTime := currentTime\<rparr>
                                 else this3)
                    in Some (this4, w1, tr, rendered, True))))"

definition start ::
    "nat \<Rightarrow> GameEngine \<Rightarrow> world \<Rightarrow> number \<Rightarrow> number \<Rightarrow>
     (GameEngine \<times> world \<times> ref list \<times> render_call option \<times> bool) option" where
  \<comment> \<open>\<open>now\<close> is the clock read by \<open>start\<close>, \<open>currentTime\<close> the one read by its first frame\<close>
  "start k this w now currentTime =
     (if isRunning this then Some (this, w, [], None, False)
      else gameLoop k (this\<lparr>isRunning := True, lastTime := now, fpsUpdateTime := now\<rparr>)
             w currentTime)"

definition stop :: "GameEngine \<Rightarrow> GameEngine" where
  "stop this = this\<lparr>isRunning := False\<rparr>"

definition createEntity :: "nat \<Rightarrow> GameEngine \<Rightarrow> world \<Rightarrow> string \<Rightarrow> (ref \<times> world) option" where
  "createEntity k this w nm =
     (let ent = nextEntity w;
          w1 = w\<lparr>entityHeap := (entityHeap w)(ent := new_Entity nm True),
                 nextEntity := Suc ent\<rparr>
      in map_option (Pair ent) (addEntity k w1 (scene this) ent (Some nm)))"

definition destroyEntity :: "nat \<Rightarrow> GameEngine \<Rightarrow> world \<Rightarrow> ref \<Rightarrow> world option" where
  "destroyEntity k this w ent =
     map_option (\<lambda>w1. destroy w1 ent) (removeEntity k w (scene this) ent)"

text \<open>The backend that belongs to a render mode, and the one a render call went through.\<close>

datatype backend = Backend2D | Backend3D

fun backend_of_mode :: "RenderMode \<Rightarrow> backend" where
  "backend_of_mode Mode2D = Backend2D"
| "backend_of_mode Mode3D = Backend3D"

fun backend_of_call :: "render_call \<Rightarrow> backend" where
  "backend_of_call (Canvas2D_render _) = Backend2D"
| "backend_of_call (WebGL_render _) = Backend3D"

text \<open>
  A page with an empty \<open>game-container\<close>; an engine built on it in 2D mode, started, and
  then switched to 3D; and the frame that follows the switch.
\<close>

definition demo_document :: document where
  "demo_document = \<lparr>elements = [(''game-container'', [])], nextCanvas = 0,
     context2dAvailable = True, webglAvailable = True,
     innerWidth = lit 800, innerHeight = lit 640\<rparr>"

definition switched_engine :: "(GameEngine \<times> world \<times> document) option" where
  "switched_engine =
     (case new_GameEngine fresh_world demo_document 0 ''game-container'' Mode2D of
        Inl _ \<Rightarrow> None
      | Inr (eng, w, d) \<Rightarrow>
          (case start 8 eng w (lit 0) (lit 16) of
             None \<Rightarrow> None
           | Some (eng1, w1, _, _, _) \<Rightarrow>
               (case switchRenderMode eng1 d Mode3D of
                  Inl _ \<Rightarrow> None
                | Inr (eng2, d2) \<Rightarrow> Some (eng2, w1, d2))))"

definition frame_after_switch ::
    "(GameEngine \<times> world \<times> ref list \<times> render_call option \<times> bool) option" where
  "frame_after_switch =
     (case switched_engine of
        None \<Rightarrow> None
      | Some (eng, w, d) \<Rightarrow> gameLoop 8 eng w (lit 32))"

section \<open>The scene index, as the specification describes it\<close>

text \<open>
  The entities reachable from an entity, in the order in which \<open>registerEntity\<close> visits
  them, with the same bound on the depth of the tree.
\<close>

fun subtree :: "nat \<Rightarrow> world \<Rightarrow> ref \<Rightarrow> ref list option"
  and subtrees :: "nat \<Rightarrow> world \<Rightarrow> ref list \<Rightarrow> ref list option"
where
  "subtree 0 w ent = None"
| "subtree (Suc k) w ent =
     (case subtrees k w (children (entityHeap w ent)) of
        None \<Rightarrow> None
      | Some xs \<Rightarrow> Some (ent # xs))"
| "subtrees k w [] = Some []"
| "subtrees k w (child # rest) =
     (case subtree k w child of
        None \<Rightarrow> None
      | Some xs \<Rightarrow>
          (case subtrees k w rest of
             None \<Rightarrow> None
           | Some ys \<Rightarrow> Some (xs @ ys)))"

definition registered :: "nat \<Rightarrow> world \<Rightarrow> ref \<Rightarrow> ref list option" where
  \<comment> \<open>the entities reachable from the roots of a scene, oldest registration first\<close>
  "registered k w this = subtrees k w (rootEntities (sceneHeap w this))"

definition spec_findEntity :: "nat \<Rightarrow> world \<Rightarrow> ref \<Rightarrow> string \<Rightarrow> ref option" where
  \<comment> \<open>the most recently registered entity whose current name is \<open>nm\<close>; absent if none\<close>
  "spec_findEntity k w this nm =
     (case registered k w this of
        None \<Rightarrow> None
      | Some reg \<Rightarrow>
          (case filter (\<lambda>e. name (entityHeap w e) = nm) (rev reg) of
             [] \<Rightarrow> None
           | e # _ \<Rightarrow> Some e))"

datatype scene_op = AddEntity ref "string option" | RemoveEntity ref

fun apply_scene_op :: "nat \<Rightarrow> world \<Rightarrow> ref \<Rightarrow> scene_op \<Rightarrow> world option" where
  "apply_scene_op k w this (AddEntity ent nm) = addEntity k w this ent nm"
| "apply_scene_op k w this (RemoveEntity ent) = removeEntity k w this ent"

fun apply_scene_ops :: "nat \<Rightarrow> world \<Rightarrow> ref \<Rightarrow> scene_op list \<Rightarrow> world option" where
  "apply_scene_ops k w this [] = Some w"
| "apply_scene_ops k w this (opn # ops) =
     (case apply_scene_op k w this opn of
        None \<Rightarrow> None
      | Some w1 \<Rightarrow> apply_scene_ops k w1 this ops)"

definition entityName :: "world \<Rightarrow> ref \<Rightarrow> string option \<Rightarrow> string" where
  \<comment> \<open>\<open>name || entity.name\<close>\<close>
  "entityName w ent nm =
     (case nm of None \<Rightarrow> name (entityHeap w ent)
      | Some n \<Rightarrow> if n = [] then name (entityHeap w ent) else n)"




text \<open>Auxiliary: a scene's index replaced, and a list of entities indexed or unindexed.\<close>

definition with_index :: "ref \<Rightarrow> (string \<times> ref) list \<Rightarrow> world \<Rightarrow> world" where
  "with_index this m w = update_scene this (\<lambda>s. s\<lparr>allEntities := m\<rparr>) w"


definition unindex_all :: "world \<Rightarrow> ref list \<Rightarrow> (string \<times> ref) list \<Rightarrow> (string \<times> ref) list" where
  "unindex_all w xs m = foldl (\<lambda>m e. AList.delete (name (entityHeap w e)) m) m xs"

text \<open>
  Entity 0 with the child 1 named \<open>Wheel\<close>, and entity 2 named \<open>Tree\<close>; the scenes are new.
\<close>

definition forest_world :: world where
  "forest_world =
     addChild
       (update_entity 2 (\<lambda>e. e\<lparr>name := ''Tree''\<rparr>)
          (update_entity 1 (\<lambda>e. e\<lparr>name := ''Wheel''\<rparr>) fresh_world)) 0 1"

section \<open>The component registry\<close>

lemma getComponent_addComponent:
  "getComponent (snd (addComponent w e C)) e C = Some (fst (addComponent w e C))"
  by (simp add: addComponent_def getComponent_def update_entity_def update_component_def
      Let_def update_conv')

lemma addComponent_fresh:
  "fst (addComponent w e C) = nextComponent w"
  "nextComponent (snd (addComponent w e C)) = Suc (nextComponent w)"
  by (simp_all add: addComponent_def update_entity_def update_component_def Let_def)

text \<open>
  Claim C6. For every entity and component class \<open>T\<close>, \<open>getComponent(T)\<close> right after
  \<open>addComponent(T)\<close> returns the very instance that \<open>addComponent\<close> returned; after a
  second \<open>addComponent(T)\<close> on the same entity, \<open>getComponent(T)\<close> returns the second
  instance, which is a different object, so the first one is no longer retrievable.
\<close>

theorem getComponent_after_addComponent:
  "getComponent (snd (addComponent w e T)) e T = Some (fst (addComponent w e T)) \<and>
   (let (first, w1) = addComponent w e T; (second, w2) = addComponent w1 e T
    in getComponent w2 e T = Some second \<and> second \<noteq> first \<and>
       getComponent w2 e T \<noteq> Some first)"
proof -
  obtain c1 w1 where a1: "addComponent w e T = (c1, w1)"
    by (cases "addComponent w e T")
  obtain c2 w2 where a2: "addComponent w1 e T = (c2, w2)"
    by (cases "addComponent w1 e T")
  have g1: "getComponent w1 e T = Some c1"
    using getComponent_addComponent [of w e T] a1 by simp
  have g2: "getComponent w2 e T = Some c2"
    using getComponent_addComponent [of w1 e T] a2 by simp
  have "c1 = nextComponent w" "nextComponent w1 = Suc (nextComponent w)"
    using addComponent_fresh [of w e T] a1 by simp_all
  moreover have "c2 = nextComponent w1"
    using addComponent_fresh(1) [of w1 e T] a2 by simp
  ultimately have "c2 \<noteq> c1" by simp
  with g1 g2 a1 a2 show ?thesis by simp
qed

section \<open>Array helpers\<close>

lemma indexOf_found: "(indexOf xs v > - 1) = (v \<in> set xs)"
  by (induction xs) (auto simp: Let_def)

lemma indexOf_nonneg: "v \<in> set xs \<Longrightarrow> 0 \<le> indexOf xs v"
  using indexOf_found [of xs v] by simp

lemma splice1_indexOf: "v \<in> set xs \<Longrightarrow> splice1 xs (indexOf xs v) = remove1 v xs"
proof (induction xs)
  case Nil
  then show ?case by simp
next
  case (Cons u us)
  show ?case
  proof (cases "u = v")
    case True
    then show ?thesis by (simp add: splice1_def)
  next
    case False
    with Cons.prems have in_us: "v \<in> set us" by simp
    then have nn: "0 \<le> indexOf us v" by (rule indexOf_nonneg)
    then have "nat (indexOf us v + 1) = Suc (nat (indexOf us v))" by simp
    with False in_us nn Cons.IH show ?thesis
      by (simp add: splice1_def Let_def indexOf_found)
  qed
qed

lemma count_list_remove1_other: "c' \<noteq> c \<Longrightarrow> count_list (remove1 c xs) c' = count_list xs c'"
  by (induction xs) auto

lemma count_one_remove1: "count_list xs c = 1 \<Longrightarrow> c \<notin> set (remove1 c xs)"
  by (induction xs) (auto simp: count_list_0_iff split: if_splits)

section \<open>The entity tree\<close>

lemma removeChild_eq:
  "removeChild w p c =
     (if c \<in> set (children (entityHeap w p))
      then update_entity c (\<lambda>e. e\<lparr>parent := None\<rparr>)
             (update_entity p (\<lambda>e. e\<lparr>children := remove1 c (children e)\<rparr>) w)
      else w)"
  by (simp add: removeChild_def Let_def indexOf_found splice1_indexOf update_entity_def)

lemma removeChild_children:
  "children (entityHeap (removeChild w p c) q) =
     (if q = p then remove1 c (children (entityHeap w p)) else children (entityHeap w q))"
  by (simp add: removeChild_eq update_entity_def remove1_idem)

lemma removeChild_parent:
  "parent (entityHeap (removeChild w p c) v) =
     (if v = c \<and> c \<in> set (children (entityHeap w p)) then None else parent (entityHeap w v))"
  by (simp add: removeChild_eq update_entity_def)

lemma consistent_fresh_world: "consistent fresh_world"
  by (simp add: consistent_def fresh_world_def new_Entity_def)

lemma consistent_addChild:
  assumes "consistent w" "parent (entityHeap w c) = None"
  shows "consistent (addChild w p c)"
  using assms unfolding consistent_def addChild_def update_entity_def Let_def
  by (auto simp: count_list_0_iff)

lemma consistent_removeChild:
  assumes "consistent w"
  shows "consistent (removeChild w p c)"
proof (cases "c \<in> set (children (entityHeap w p))")
  case False
  with assms show ?thesis by (simp add: removeChild_eq)
next
  case True
  from assms True have pc: "parent (entityHeap w c) = Some p"
    by (simp add: consistent_def)
  with assms have one: "count_list (children (entityHeap w p)) c = 1"
    by (simp add: consistent_def)
  have down: "parent (entityHeap (removeChild w p c) v) = Some q"
    if "v \<in> set (children (entityHeap (removeChild w p c) q))" for q v
  proof -
    from that have mem: "v \<in> set (children (entityHeap w q))"
      using set_remove1_subset [of c "children (entityHeap w p)"]
      by (auto simp: removeChild_children split: if_splits)
    with assms have pv: "parent (entityHeap w v) = Some q"
      by (simp add: consistent_def)
    have "v \<noteq> c"
    proof
      assume "v = c"
      with pv pc have "q = p" by simp
      with that \<open>v = c\<close> count_one_remove1 [OF one] show False
        by (simp add: removeChild_children)
    qed
    with pv show ?thesis by (simp add: removeChild_parent)
  qed
  have up: "count_list (children (entityHeap (removeChild w p c) q)) v = 1"
    if "parent (entityHeap (removeChild w p c) v) = Some q" for q v
  proof -
    from that True have "v \<noteq> c" and pv: "parent (entityHeap w v) = Some q"
      by (auto simp: removeChild_parent split: if_splits)
    with assms have "count_list (children (entityHeap w q)) v = 1"
      by (simp add: consistent_def)
    with \<open>v \<noteq> c\<close> show ?thesis
      by (auto simp: removeChild_children count_list_remove1_other)
  qed
  from down up show ?thesis unfolding consistent_def by blast
qed

lemma consistent_destroy:
  assumes "consistent w" "children (entityHeap w e) = []"
  shows "consistent (destroy w e)"
proof -
  define w1 where
    "w1 = (case parent (entityHeap w e) of Some p \<Rightarrow> removeChild w p e | None \<Rightarrow> w)"
  have c1: "consistent w1"
    using assms(1) by (simp add: w1_def consistent_removeChild split: option.splits)
  have ch: "children (entityHeap w1 e) = []"
    using assms(2) by (simp add: w1_def removeChild_children split: option.splits)
  have eq: "destroy w e = update_entity e (\<lambda>v. v\<lparr>children := []\<rparr>)
              (update_entity e (\<lambda>v. v\<lparr>components := []\<rparr>) w1)"
    by (simp add: destroy_def w1_def Let_def)
  have "children (entityHeap (destroy w e) q) = children (entityHeap w1 q)" for q
    using ch by (simp add: eq update_entity_def)
  moreover have "parent (entityHeap (destroy w e) v) = parent (entityHeap w1 v)" for v
    by (simp add: eq update_entity_def)
  ultimately show ?thesis using c1 by (simp add: consistent_def)
qed

lemma consistent_apply_op: "consistent w \<Longrightarrow> op_ok w opn \<Longrightarrow> consistent (apply_op w opn)"
  by (cases opn) (simp_all add: consistent_addChild consistent_removeChild consistent_destroy)

text \<open>
  Claim C2, as the code has it. Starting from a consistent tree, every sequence of
  \<open>addChild\<close>, \<open>removeChild\<close> and \<open>destroy\<close> calls in which each \<open>addChild\<close> attaches an
  entity that has no parent at that moment, and each \<open>destroy\<close> is applied to an entity
  that has no children at that moment, leaves the tree mutually consistent.
\<close>

theorem tree_ops_keep_consistent:
  "consistent w \<Longrightarrow> ops_ok w ops \<Longrightarrow> consistent (apply_ops w ops)"
proof (induction ops arbitrary: w)
  case Nil
  then show ?case by simp
next
  case (Cons opn ops)
  from Cons.prems have "consistent (apply_op w opn)" and "ops_ok (apply_op w opn) ops"
    by (simp_all add: consistent_apply_op)
  then show ?case using Cons.IH by simp
qed

theorem tree_ops_keep_consistent_witness:
  "consistent fresh_world \<and>
   ops_ok fresh_world [AddChild 0 1, AddChild 0 2, RemoveChild 0 1, AddChild 2 1, Destroy 1] \<and>
   consistent (apply_ops fresh_world
     [AddChild 0 1, AddChild 0 2, RemoveChild 0 1, AddChild 2 1, Destroy 1])"
proof -
  have ok: "ops_ok fresh_world
      [AddChild 0 1, AddChild 0 2, RemoveChild 0 1, AddChild 2 1, Destroy 1]"
    by (simp add: fresh_world_def new_Entity_def addChild_def removeChild_eq destroy_def
        update_entity_def)
  with consistent_fresh_world tree_ops_keep_consistent [OF consistent_fresh_world ok]
  show ?thesis by simp
qed

text \<open>
  The claim as the specification states it, for any sequence, fails: attaching entity 2
  to entity 0 and then to entity 1 leaves it in the child list of 0 with parent 1.
\<close>

theorem addChild_twice_inconsistent:
  "\<not> consistent (apply_ops fresh_world [AddChild 0 2, AddChild 1 2])"
proof
  assume "consistent (apply_ops fresh_world [AddChild 0 2, AddChild 1 2])"
  then have "2 \<in> set (children (entityHeap (apply_ops fresh_world [AddChild 0 2, AddChild 1 2]) 0))
      \<longrightarrow> parent (entityHeap (apply_ops fresh_world [AddChild 0 2, AddChild 1 2]) 2) = Some 0"
    unfolding consistent_def by blast
  then show False
    by (simp add: fresh_world_def new_Entity_def addChild_def update_entity_def)
qed

text \<open>
  \<open>destroy\<close> drops the child list without touching the children: a child of a destroyed
  entity keeps its parent reference.
\<close>

lemma destroy_abandons_children:
  "parent (entityHeap (apply_ops fresh_world [AddChild 0 1, Destroy 0]) 1) = Some 0 \<and>
   children (entityHeap (apply_ops fresh_world [AddChild 0 1, Destroy 0]) 0) = []"
  by (simp add: fresh_world_def new_Entity_def addChild_def destroy_def update_entity_def)

section \<open>The update pass\<close>

text \<open>
  Claim C7. For every entity whose active flag is false, \<open>update\<close> invokes no component
  update, on that entity or on any descendant, whatever the descendants' own flags:
  the call returns at once, the heap is unchanged and the list of invoked updates is empty.
\<close>

theorem inactive_entity_update:
  "\<not> active (entityHeap w e) \<Longrightarrow> Entity_update (Suc k) w e deltaTime = Some (w, [])"
  by simp

theorem inactive_entity_update_witness:
  "\<not> active (entityHeap inactive_parent_world 0) \<and>
   children (entityHeap inactive_parent_world 0) = [1] \<and>
   active (entityHeap inactive_parent_world 1) \<and>
   getComponents inactive_parent_world 1 = [0] \<and>
   isEnabled (componentHeap inactive_parent_world 0) \<and>
   Entity_update (Suc 3) inactive_parent_world 0 (lit (1 / 60)) = Some (inactive_parent_world, [])"
proof -
  have facts: "\<not> active (entityHeap inactive_parent_world 0)"
    "children (entityHeap inactive_parent_world 0) = [1]"
    "active (entityHeap inactive_parent_world 1)"
    "getComponents inactive_parent_world 1 = [0]"
    "isEnabled (componentHeap inactive_parent_world 0)"
    by (simp_all add: inactive_parent_world_def fresh_world_def new_Entity_def addChild_def
        addComponent_def getComponents_def update_entity_def update_component_def
        new_Component_def Let_def)
  from facts inactive_entity_update [OF facts(1), of 3 "lit (1 / 60)"]
  show ?thesis by simp
qed

section \<open>The scene index\<close>

text \<open>
  Claim C8. For every scene and every entity, \<open>addChild\<close> leaves the scene's name index
  as it was, so \<open>findEntity\<close> answers every name, the new child's included, exactly as
  before the call: the child is in the parent's child list but is found only if its
  name was indexed already.
\<close>

theorem addChild_keeps_index:
  "allEntities (sceneHeap (addChild w p c) s) = allEntities (sceneHeap w s) \<and>
   findEntity (addChild w p c) s nm = findEntity w s nm \<and>
   c \<in> set (getChildren (addChild w p c) p)"
  by (simp add: addChild_def update_entity_def findEntity_def getChildren_def)

section \<open>Input edges\<close>

lemma keysJustPressed_kept:
  "UpdateCall \<notin> set sts \<Longrightarrow> key \<in> set (keysJustPressed s) \<Longrightarrow>
   key \<in> set (keysJustPressed (input_run s sts))"
proof (induction sts arbitrary: s)
  case Nil
  then show ?case by simp
next
  case (Cons st sts)
  from Cons.prems(1) obtain ev where st: "st = Event ev"
    by (cases st) auto
  from Cons.prems(2) have "key \<in> set (keysJustPressed (dispatch s ev))"
    by (cases ev) (auto simp: Let_def Set_add_def Set_has_def)
  with Cons.IH [of "dispatch s ev"] Cons.prems(1) st show ?case by simp
qed

lemma keysPressed_kept:
  "Event (KeyUp key) \<notin> set sts \<Longrightarrow> key \<in> set (keysPressed s) \<Longrightarrow>
   key \<in> set (keysPressed (input_run s sts))"
proof (induction sts arbitrary: s)
  case Nil
  then show ?case by simp
next
  case (Cons st sts)
  have "key \<in> set (keysPressed (do_step s st))"
  proof (cases st)
    case (Event ev)
    with Cons.prems show ?thesis
      by (cases ev) (auto simp: Let_def Set_add_def Set_has_def Set_delete_def)
  next
    case UpdateCall
    with Cons.prems show ?thesis by (simp add: InputManager_update_def)
  qed
  with Cons.IH [of "do_step s st"] Cons.prems(1) show ?case by simp
qed

lemma held_not_just_pressed_kept:
  "Event (KeyUp key) \<notin> set sts \<Longrightarrow> key \<in> set (keysPressed s) \<Longrightarrow>
   key \<notin> set (keysJustPressed s) \<Longrightarrow> key \<notin> set (keysJustPressed (input_run s sts))"
proof (induction sts arbitrary: s)
  case Nil
  then show ?case by simp
next
  case (Cons st sts)
  have "key \<in> set (keysPressed (do_step s st)) \<and>
        key \<notin> set (keysJustPressed (do_step s st))"
  proof (cases st)
    case (Event ev)
    with Cons.prems show ?thesis
      by (cases ev) (auto simp: Let_def Set_add_def Set_has_def Set_delete_def)
  next
    case UpdateCall
    with Cons.prems show ?thesis by (simp add: InputManager_update_def)
  qed
  with Cons.IH [of "do_step s st"] Cons.prems(1) show ?case by simp
qed

text \<open>
  Claim C5. A raw press of a key that is not held makes \<open>isKeyJustPressed\<close> true, and it
  stays true over every run of raw events up to the next \<open>update()\<close>, a release of the key
  included; that one \<open>update()\<close> makes it false, and it stays false at every later moment
  while the key is not released, whatever else happens (repeated presses, further
  updates, other keys, pointer events); \<open>isKeyPressed\<close> is true from the press on, until a
  raw release of the key makes it false.
\<close>

theorem key_press_edge:
  assumes "\<not> isKeyPressed s key"
    and "UpdateCall \<notin> set before"
  shows "isKeyJustPressed (input_run (dispatch s (KeyDown key)) before) key \<and>
         \<not> isKeyJustPressed
            (InputManager_update (input_run (dispatch s (KeyDown key)) before)) key \<and>
         (Event (KeyUp key) \<notin> set before \<and> Event (KeyUp key) \<notin> set after \<longrightarrow>
            isKeyPressed (input_run (dispatch s (KeyDown key)) before) key \<and>
            \<not> isKeyJustPressed
               (input_run (InputManager_update (input_run (dispatch s (KeyDown key)) before))
                  after) key \<and>
            isKeyPressed
               (input_run (InputManager_update (input_run (dispatch s (KeyDown key)) before))
                  after) key) \<and>
         \<not> isKeyPressed (dispatch
            (input_run (InputManager_update (input_run (dispatch s (KeyDown key)) before)) after)
            (KeyUp key)) key"
proof -
  let ?s1 = "dispatch s (KeyDown key)"
  let ?s2 = "input_run ?s1 before"
  let ?s3 = "InputManager_update ?s2"
  have j1: "key \<in> set (keysJustPressed ?s1)" and p1: "key \<in> set (keysPressed ?s1)"
    using assms(1) by (simp_all add: isKeyPressed_def Set_has_def Set_add_def Let_def)
  have j2: "key \<in> set (keysJustPressed ?s2)"
    using keysJustPressed_kept [OF assms(2) j1] .
  have j3: "key \<notin> set (keysJustPressed ?s3)"
    by (simp add: InputManager_update_def)
  have held: "key \<in> set (keysPressed ?s2) \<and>
      key \<notin> set (keysJustPressed (input_run ?s3 after)) \<and>
      key \<in> set (keysPressed (input_run ?s3 after))"
    if up: "Event (KeyUp key) \<notin> set before" "Event (KeyUp key) \<notin> set after"
  proof -
    have p2: "key \<in> set (keysPressed ?s2)"
      using keysPressed_kept [OF up(1) p1] .
    then have p3: "key \<in> set (keysPressed ?s3)"
      by (simp add: InputManager_update_def)
    have j4: "key \<notin> set (keysJustPressed (input_run ?s3 after))"
      using held_not_just_pressed_kept [OF up(2) p3 j3] .
    have p4: "key \<in> set (keysPressed (input_run ?s3 after))"
      using keysPressed_kept [OF up(2) p3] .
    from p2 j4 p4 show ?thesis by simp
  qed
  have r: "key \<notin> set (keysPressed (dispatch (input_run ?s3 after) (KeyUp key)))"
    by (simp add: Let_def Set_delete_def)
  from j2 j3 held r show ?thesis
    by (simp add: isKeyJustPressed_def isKeyPressed_def Set_has_def)
qed

theorem key_press_edge_witness:
  "\<not> isKeyPressed new_InputManager ''a'' \<and>
   isKeyJustPressed (input_run (dispatch new_InputManager (KeyDown ''a''))
      [Event (KeyDown ''b''), Event (KeyUp ''a'')]) ''a'' \<and>
   \<not> isKeyPressed (input_run (dispatch new_InputManager (KeyDown ''a''))
      [Event (KeyDown ''b''), Event (KeyUp ''a'')]) ''a'' \<and>
   \<not> isKeyJustPressed (InputManager_update (input_run (dispatch new_InputManager (KeyDown ''a''))
      [Event (KeyDown ''b''), Event (KeyUp ''a'')])) ''a'' \<and>
   isKeyJustPressed (input_run (dispatch new_InputManager (KeyDown ''a''))
      [Event (KeyDown ''b''), Event (KeyDown ''a'')]) ''a'' \<and>
   \<not> isKeyJustPressed
      (input_run (InputManager_update (input_run (dispatch new_InputManager (KeyDown ''a''))
         [Event (KeyDown ''b''), Event (KeyDown ''a'')]))
         [Event (KeyDown ''a''), UpdateCall, Event MouseOut, Event (KeyUp ''b'')]) ''a'' \<and>
   isKeyPressed
      (input_run (InputManager_update (input_run (dispatch new_InputManager (KeyDown ''a''))
         [Event (KeyDown ''b''), Event (KeyDown ''a'')]))
         [Event (KeyDown ''a''), UpdateCall, Event MouseOut, Event (KeyUp ''b'')]) ''a''"
proof -
  have h1: "\<not> isKeyPressed new_InputManager ''a''"
    by (simp add: isKeyPressed_def Set_has_def new_InputManager_def)
  have h2: "UpdateCall \<notin> set [Event (KeyDown ''b''), Event (KeyUp ''a'')]" by simp
  have h3: "UpdateCall \<notin> set [Event (KeyDown ''b''), Event (KeyDown ''a'')]" by simp
  have h4: "Event (KeyUp ''a'') \<notin> set [Event (KeyDown ''b''), Event (KeyDown ''a'')] \<and>
      Event (KeyUp ''a'') \<notin>
        set [Event (KeyDown ''a''), UpdateCall, Event MouseOut, Event (KeyUp ''b'')]" by simp
  have released: "\<not> isKeyPressed (input_run (dispatch new_InputManager (KeyDown ''a''))
      [Event (KeyDown ''b''), Event (KeyUp ''a'')]) ''a''"
    by (simp add: isKeyPressed_def Set_has_def Set_add_def Set_delete_def new_InputManager_def
        Let_def)
  from key_press_edge [OF h1 h2, of "[]"]
    key_press_edge [OF h1 h3,
      of "[Event (KeyDown ''a''), UpdateCall, Event MouseOut, Event (KeyUp ''b'')]"]
    h1 h4 released
  show ?thesis by blast
qed

section \<open>Evaluating numbers\<close>

lemma floorlog2_pos: "0 < n \<Longrightarrow> floorlog 2 n = Suc (floorlog 2 (n div 2))"
  by (subst compute_floorlog) simp

lemma floorlog2_zero: "floorlog 2 0 = 0"
  by (simp add: floorlog_def)

lemma floor_rat_divide_numeral:
  "\<lfloor>(numeral a :: rat) / numeral b\<rfloor> = numeral a div numeral b"
  using floor_divide_of_int_eq [of "numeral a" "numeral b", where ?'a = rat] by simp

lemma floor_rat_one_divide_numeral:
  "\<lfloor>(1 :: rat) / numeral b\<rfloor> = 1 div numeral b"
  using floor_divide_of_int_eq [of 1 "numeral b", where ?'a = rat] by simp

lemma ceiling_rat_divide_numeral:
  "\<lceil>(numeral a :: rat) / numeral b\<rceil> = - (- numeral a div numeral b)"
  using ceiling_divide_eq_div [of "numeral a" "numeral b", where ?'a = rat] by simp

lemma ceiling_rat_one_divide_numeral:
  "\<lceil>(1 :: rat) / numeral b\<rceil> = - (- 1 div numeral b)"
  using ceiling_divide_eq_div [of 1 "numeral b", where ?'a = rat] by simp

lemmas number_eval = lit_def rnd_def roundMag_def ilog2_def roundHalfEven_def scale2_def
  fsub_def signed_def Let_def floorlog2_pos floorlog2_zero
  floor_rat_divide_numeral floor_rat_one_divide_numeral
  ceiling_rat_divide_numeral ceiling_rat_one_divide_numeral

text \<open>
  Known binary64 values: the literals 0.1 and 9.8, and the sum 0.1 + 0.2, which is the
  value above 0.3.
\<close>

lemma binary64_values:
  "lit (1 / 10) = Finite False (3602879701896397 / 36028797018963968)"
  "lit (98 / 10) = Finite False (2758454771764429 / 281474976710656)"
  "fadd (lit (1 / 10)) (lit (2 / 10)) = Finite False (1351079888211149 / 4503599627370496)"
  "lit (3 / 10) = Finite False (5404319552844595 / 18014398509481984)"
  "fdiv (lit 1) (lit 0) = Infinity False"
  "fmul (lit 0) (Infinity False) = NaN"
  by (simp_all add: number_eval)

section \<open>The physics step\<close>

lemma lit_values:
  "lit 0 = Finite False 0"
  "lit 1 = Finite False 1"
  "lit 2 = Finite False 2"
  "lit 5 = Finite False 5"
  "lit 10 = Finite False 10"
  by (simp_all add: number_eval)



















section \<open>The frame loop and the render mode\<close>

lemma switch_to_3d_keeps_2d_renderer:
  assumes "renderMode eng = Mode2D" "switchRenderMode eng d Mode3D = Inr (eng', d')"
  shows "canvas2DRenderer eng' = canvas2DRenderer eng \<and> renderMode eng' = Mode3D \<and>
         webglRenderer eng' \<noteq> None"
  using assms
  by (auto simp: switchRenderMode_def initializeRenderer_def new_WebGLRenderer_def Let_def
      split: option.splits sum.splits if_splits list.splits)

lemma gameLoop_prefers_2d_renderer:
  assumes "isRunning eng" "canvas2DRenderer eng = Some r"
    "gameLoop k eng w t = Some (eng', w', tr, rendered, rearm)"
  shows "rendered = Some (Canvas2D_render r) \<and> renderMode eng' = renderMode eng"
  using assms
  by (auto simp: gameLoop_def Let_def split: option.splits if_splits)

lemma switched_engine_value:
  "case switched_engine of
     None \<Rightarrow> False
   | Some (eng, w, d) \<Rightarrow>
       isRunning eng \<and> renderMode eng = Mode3D \<and>
       map_option canvas2d (canvas2DRenderer eng) = Some 0 \<and>
       map_option canvas3d (webglRenderer eng) = Some 1 \<and>
       elements d = [(''game-container'', [1])]"
  by (simp add: switched_engine_def new_GameEngine_def initializeRenderer_def
      new_Canvas2DRenderer_def new_WebGLRenderer_def switchRenderMode_def start_def gameLoop_def
      Scene_update_def update_scene_def new_Scene_def demo_document_def fresh_world_def Let_def
      split: if_splits)

text \<open>
  Claim C3 says that every frame renders through the backend of the current render
  mode, and in particular through the 3D backend after a switch from 2D to 3D. The code
  does not: \<open>switchRenderMode\<close> removes the old canvas and builds the WebGL renderer but
  leaves \<open>canvas2DRenderer\<close> set, and the frame loop asks for \<open>canvas2DRenderer\<close> first.
  On the page with an empty \<open>game-container\<close>, the frame after the switch has render mode
  3D, a WebGL renderer on canvas 1, and calls \<open>render\<close> on the 2D renderer.
\<close>

theorem frame_after_switch_renders_2d:
  "case frame_after_switch of
     None \<Rightarrow> False
   | Some (eng, w, tr, rendered, rearm) \<Rightarrow>
       renderMode eng = Mode3D \<and>
       map_option canvas3d (webglRenderer eng) = Some 1 \<and>
       map_option backend_of_call rendered = Some Backend2D \<and>
       map_option backend_of_call rendered \<noteq> Some (backend_of_mode (renderMode eng))"
  by (simp add: frame_after_switch_def switched_engine_def new_GameEngine_def
      initializeRenderer_def new_Canvas2DRenderer_def new_WebGLRenderer_def switchRenderMode_def
      start_def gameLoop_def Scene_update_def update_scene_def new_Scene_def demo_document_def
      fresh_world_def Let_def split: if_splits)

section \<open>Exactness of the scene index\<close>

lemma with_index_simps [simp]:
  "entityHeap (with_index s m w) = entityHeap w"
  "sceneHeap (with_index s m w) s = (sceneHeap w s)\<lparr>allEntities := m\<rparr>"
  "with_index s m (with_index s m' w) = with_index s m w"
  by (simp_all add: with_index_def update_scene_def)







lemma unindex_all_simps [simp]:
  "unindex_all w [] m = m"
  "unindex_all w (e # xs) m = unindex_all w xs (AList.delete (name (entityHeap w e)) m)"
  "unindex_all w (xs @ ys) m = unindex_all w ys (unindex_all w xs m)"
  by (simp_all add: unindex_all_def)


















lemmas scene_eval = addEntity_def removeEntity_def update_scene_def update_entity_def
  fresh_world_def new_Entity_def new_Scene_def splice1_def findEntity_def spec_findEntity_def
  registered_def getChildren_def entityName_def addChild_def Let_def eval_nat_numeral


lemma forest_world_lookup:
  "case apply_scene_ops 2 forest_world 0
          [AddEntity 0 (Some ''Car''), AddEntity 2 None, RemoveEntity 2,
           AddEntity 3 (Some ''Wheel'')] of
     None \<Rightarrow> False
   | Some w' \<Rightarrow>
       registered 2 w' 0 = Some [0, 1, 3] \<and>
       findEntity w' 0 ''Car'' = Some 0 \<and> findEntity w' 0 ''Wheel'' = Some 3 \<and>
       findEntity w' 0 ''Tree'' = None"
  by (simp add: forest_world_def scene_eval)


end
